theory Spec2Isabelle
  imports Main
begin

section \<open>Python values, strings and exceptions\<close>

text \<open>
  The diagnostic evaluation engine (\<^verbatim>\<open>diagnostic_utils.py\<close>) works on dynamically typed
  values. A DTC code or status is a \<^verbatim>\<open>Union[str, int]\<close> or \<^verbatim>\<open>None\<close>; a diagnostic request
  or response is in addition a \<^verbatim>\<open>bytes\<close> object or a list of such scalars.

  A Python \<^verbatim>\<open>str\<close> is modelled as a \<^typ>\<open>string\<close> whose characters are the code points
  0..255; strings with code points beyond that range are outside this model. Python's
  \<^verbatim>\<open>int\<close> is \<^typ>\<open>int\<close>.
\<close>

datatype pyval = PNone | PInt int | PStr string

datatype resp = RBytes "nat list" | RStr string | RList "pyval list" | RInt int | RNone

text \<open>
  Exceptions are values. For an exception raised by a built-in the message is the
  interpreter's text followed by the offending literal itself (the interpreter prints
  its \<^verbatim>\<open>repr()\<close>); no statement below depends on the text of a built-in's message.
\<close>

datatype exn = ValueError string | TypeError string | RuntimeError string

fun is_ValueError :: "exn \<Rightarrow> bool" where
  "is_ValueError (ValueError m) = True"
| "is_ValueError e = False"

subsection \<open>\<^verbatim>\<open>str\<close> methods\<close>

definition py_isspace :: "char \<Rightarrow> bool" where
  \<comment> \<open>\<^verbatim>\<open>str.isspace\<close> on the code points below 256\<close>
  "py_isspace c = (let n = (of_char c :: nat) in
     (9 \<le> n \<and> n \<le> 13) \<or> (28 \<le> n \<and> n \<le> 32) \<or> n = 133 \<or> n = 160)"

definition py_strip :: "string \<Rightarrow> string" where
  "py_strip s = rev (dropWhile py_isspace (rev (dropWhile py_isspace s)))"

definition py_lower_char :: "char \<Rightarrow> char" where
  \<comment> \<open>\<^verbatim>\<open>A-Z\<close> and the upper-case letters of Latin-1 (\<^verbatim>\<open>0xC0-0xDE\<close> without \<^verbatim>\<open>0xD7\<close>)\<close>
  "py_lower_char c = (let n = (of_char c :: nat) in
     if (65 \<le> n \<and> n \<le> 90) \<or> (192 \<le> n \<and> n \<le> 222 \<and> n \<noteq> 215)
     then char_of (n + 32) else c)"

definition py_lower :: "string \<Rightarrow> string" where
  "py_lower s = map py_lower_char s"

definition startswith :: "string \<Rightarrow> string \<Rightarrow> bool" where
  "startswith s p = (take (length p) s = p)"

definition endswith :: "string \<Rightarrow> string \<Rightarrow> bool" where
  "endswith s p = (drop (length s - length p) s = p \<and> length p \<le> length s)"

definition remove_underscores :: "string \<Rightarrow> string" where
  \<comment> \<open>\<^verbatim>\<open>s.replace("_", "")\<close>\<close>
  "remove_underscores s = filter (\<lambda>c. c \<noteq> CHR ''_'') s"

definition is_hexdigit_lower :: "char \<Rightarrow> bool" where
  \<comment> \<open>\<^verbatim>\<open>ch in "0123456789abcdef"\<close>\<close>
  "is_hexdigit_lower c = (c \<in> set ''0123456789abcdef'')"

definition is_bit_pattern :: "string \<Rightarrow> bool" where
  \<comment> \<open>\<^verbatim>\<open>set(s) <= {"0", "1", "*"}\<close>\<close>
  "is_bit_pattern s = list_all (\<lambda>c. c = CHR ''0'' \<or> c = CHR ''1'' \<or> c = CHR ''*'') s"

definition zfill :: "string \<Rightarrow> nat \<Rightarrow> string" where
  \<comment> \<open>\<^verbatim>\<open>str.zfill\<close>: the zeros go after a leading sign\<close>
  "zfill s w =
     (if w \<le> length s then s
      else case s of
        [] \<Rightarrow> replicate w CHR ''0''
      | c # cs \<Rightarrow>
          if c = CHR ''+'' \<or> c = CHR ''-'' then c # replicate (w - length s) CHR ''0'' @ cs
          else replicate (w - length s) CHR ''0'' @ s)"

subsection \<open>\<^verbatim>\<open>int(str, base)\<close>\<close>

definition int_space :: "char \<Rightarrow> bool" where
  \<comment> \<open>the white space \<^verbatim>\<open>int()\<close> skips: ASCII white space, and \<^verbatim>\<open>0x85\<close>, \<^verbatim>\<open>0xA0\<close>\<close>
  "int_space c = (let n = (of_char c :: nat) in
     (9 \<le> n \<and> n \<le> 13) \<or> n = 32 \<or> n = 133 \<or> n = 160)"

definition digit_val :: "char \<Rightarrow> nat" where
  \<comment> \<open>the interpreter's digit table; 37 marks a character that is no digit\<close>
  "digit_val c = (let n = (of_char c :: nat) in
     if 48 \<le> n \<and> n \<le> 57 then n - 48
     else if 97 \<le> n \<and> n \<le> 122 then n - 87
     else if 65 \<le> n \<and> n \<le> 90 then n - 55
     else 37)"

fun scan_digits :: "nat \<Rightarrow> char \<Rightarrow> string \<Rightarrow> (nat list \<times> string) option" where
  \<comment> \<open>digits with single underscores between them; \<open>None\<close> is a syntax error\<close>
  "scan_digits base prev [] = (if prev = CHR ''_'' then None else Some ([], []))"
| "scan_digits base prev (c # cs) =
     (if c = CHR ''_'' then
        (if prev = CHR ''_'' then None else scan_digits base c cs)
      else if digit_val c < base then
        (case scan_digits base c cs of
           None \<Rightarrow> None
         | Some (ds, rest) \<Rightarrow> Some (digit_val c # ds, rest))
      else if prev = CHR ''_'' then None
      else Some ([], c # cs))"

definition digits_value :: "nat \<Rightarrow> nat list \<Rightarrow> nat" where
  "digits_value base ds = foldl (\<lambda>a d. a * base + d) 0 ds"

definition int_max_str_digits :: nat where
  \<comment> \<open>the interpreter's default limit for bases that are no power of two\<close>
  "int_max_str_digits = 4300"

definition strip_sign :: "string \<Rightarrow> int \<times> string" where
  "strip_sign s =
     (case s of
        [] \<Rightarrow> (1, [])
      | c # cs \<Rightarrow> if c = CHR ''+'' then (1, cs) else if c = CHR ''-'' then (-1, cs) else (1, s))"

definition strip_prefix :: "nat \<Rightarrow> string \<Rightarrow> string" where
  \<comment> \<open>\<^verbatim>\<open>0x\<close> for base 16, \<^verbatim>\<open>0b\<close> for base 2, and one underscore after it\<close>
  "strip_prefix base s =
     (case s of
        c0 # c1 # cs \<Rightarrow>
          if c0 = CHR ''0'' \<and>
             ((base = 16 \<and> (c1 = CHR ''x'' \<or> c1 = CHR ''X'')) \<or>
              (base = 2 \<and> (c1 = CHR ''b'' \<or> c1 = CHR ''B'')))
          then (case cs of [] \<Rightarrow> [] | c2 # cs' \<Rightarrow> if c2 = CHR ''_'' then cs' else cs)
          else s
      | _ \<Rightarrow> s)"

definition invalid_literal :: "nat \<Rightarrow> string \<Rightarrow> exn" where
  "invalid_literal base s =
     ValueError ((if base = 16 then ''invalid literal for int() with base 16: ''
                  else if base = 2 then ''invalid literal for int() with base 2: ''
                  else ''invalid literal for int() with base 10: '') @ s)"

definition py_int :: "nat \<Rightarrow> string \<Rightarrow> exn + int" where
  \<comment> \<open>\<^verbatim>\<open>int(s, base)\<close> for \<open>base\<close> 2, 10 or 16\<close>
  "py_int base s =
     (let (sgn, s1) = strip_sign (dropWhile int_space s);
          s2 = strip_prefix base s1
      in if startswith s2 ''_'' then Inl (invalid_literal base s)
         else case scan_digits base (CHR 0x00) s2 of
           None \<Rightarrow> Inl (invalid_literal base s)
         | Some (ds, rest) \<Rightarrow>
             if base = 10 \<and> int_max_str_digits < length ds
             then Inl (ValueError ''Exceeds the limit (4300 digits) for integer string conversion'')
             else if ds = [] then Inl (invalid_literal base s)
             else if dropWhile int_space rest = [] then Inr (sgn * int (digits_value base ds))
             else Inl (invalid_literal base s))"

subsection \<open>Formatting integers\<close>

definition digit_char :: "bool \<Rightarrow> nat \<Rightarrow> char" where
  "digit_char upper d =
     (if upper then ''0123456789ABCDEF'' ! d else ''0123456789abcdef'' ! d)"

fun nat_digits :: "nat \<Rightarrow> bool \<Rightarrow> nat \<Rightarrow> string" where
  \<comment> \<open>the digits of \<open>n\<close> in base 2, 10 or 16, without leading zeros\<close>
  "nat_digits base upper n =
     (if n < base \<or> base < 2 then [digit_char upper n]
      else nat_digits base upper (n div base) @ [digit_char upper (n mod base)])"

declare nat_digits.simps [simp del]

definition format_int :: "nat \<Rightarrow> bool \<Rightarrow> nat \<Rightarrow> int \<Rightarrow> string" where
  \<comment> \<open>\<^verbatim>\<open>f"{n:0{w}x}"\<close>, \<^verbatim>\<open>f"{n:0{w}X}"\<close>: the sign comes first and counts for the width\<close>
  "format_int base upper w n =
     (let ds = nat_digits base upper (nat \<bar>n\<bar>);
          sg = (if n < 0 then ''-'' else '''')
      in sg @ replicate (w - length sg - length ds) CHR ''0'' @ ds)"

section \<open>The value codec\<close>

definition STATUS_ALLOWED :: string where "STATUS_ALLOWED = ''Allowed''"
definition STATUS_MUTED :: string where "STATUS_MUTED = ''Muted''"
definition STATUS_EXPECTED :: string where "STATUS_EXPECTED = ''Expected''"
definition STATUS_ANY :: string where "STATUS_ANY = ''any''"

definition py_int_val :: "pyval \<Rightarrow> exn + int" where
  \<comment> \<open>\<^verbatim>\<open>int(value)\<close>\<close>
  "py_int_val v =
     (case v of
        PInt n \<Rightarrow> Inr n
      | PStr s \<Rightarrow> py_int 10 s
      | PNone \<Rightarrow> Inl (TypeError ''int() argument must be a string, a bytes-like object or a real number, not NoneType''))"

definition to_int :: "pyval \<Rightarrow> exn + int option" where
  \<comment> \<open>\<^verbatim>\<open>_to_int\<close>\<close>
  "to_int v =
     (case v of
        PNone \<Rightarrow> Inr None
      | PStr str \<Rightarrow>
          (let s = py_lower (py_strip str) in
           if s = STATUS_ANY then Inr None
           else if is_bit_pattern s then Inr None
           else if startswith s ''0x'' then map_sum id Some (py_int 16 (remove_underscores (drop 2 s)))
           else if startswith s ''0b'' then map_sum id Some (py_int 2 (remove_underscores (drop 2 s)))
           else map_sum id Some (py_int 10 s))
      | PInt n \<Rightarrow> Inr (Some n))"

definition format_dtc_code :: "pyval \<Rightarrow> exn + string" where
  "format_dtc_code v =
     (let fmt = (\<lambda>n. Inr (''0x'' @ format_int 16 False
                     (if n \<le> 0xFFFFF then 5 else length (format_int 16 False 0 n)) n))
      in case v of
        PStr str \<Rightarrow>
          (let s = py_lower (py_strip str) in
           if s = STATUS_ANY then Inr STATUS_ANY
           else if startswith s ''0x'' then
             (let hex_digits = filter is_hexdigit_lower (drop 2 s)
              in Inr (''0x'' @ (if hex_digits = [] then ''00'' else hex_digits)))
           else if startswith s ''0b'' then
             (case py_int 2 (remove_underscores (drop 2 s)) of
                Inl e \<Rightarrow> Inl e
              | Inr n \<Rightarrow> fmt n)
           else
             (case py_int 10 s of
                Inr n \<Rightarrow> fmt n
              | Inl e \<Rightarrow>
                  if is_ValueError e then
                    (case py_int 16 s of Inl e' \<Rightarrow> Inl e' | Inr n \<Rightarrow> fmt n)
                  else Inl e))
      | _ \<Rightarrow> (case py_int_val v of Inl e \<Rightarrow> Inl e | Inr n \<Rightarrow> fmt n))"

definition parse_to_int_or_hex :: "pyval \<Rightarrow> exn + string" where
  "parse_to_int_or_hex v =
     (let fmt = (\<lambda>n. Inr (''0x'' @ format_int 16 False 2 n));
          other = (case py_int_val v of Inl e \<Rightarrow> Inl e | Inr n \<Rightarrow> fmt n)
      in case v of
        PStr s \<Rightarrow>
          if py_lower s = STATUS_ANY then Inr STATUS_ANY
          else if startswith (py_lower s) ''0x'' then
            (let digits = filter is_hexdigit_lower (py_lower (py_strip (drop 2 s)));
                 digits = (if length digits = 1 then zfill digits 2 else digits)
             in Inr (''0x'' @ (if digits = [] then ''00'' else digits)))
          else if startswith (py_lower s) ''0b'' then
            (case py_int 2 (remove_underscores (drop 2 s)) of
               Inl e \<Rightarrow> Inl e
             | Inr n \<Rightarrow> fmt n)
          else if is_bit_pattern s then Inr s
          else other
      | _ \<Rightarrow> other)"

section \<open>DTC records and the rule matcher\<close>

text \<open>
  \<^verbatim>\<open>DTCInfo\<close> (\<^verbatim>\<open>dtcinfo.py\<close>): the code is stored as a lower-cased string, the status
  as it was given.
\<close>

record DTCInfo =
  DTC :: string
  status :: pyval

definition DTCInfo_init :: "string \<Rightarrow> pyval \<Rightarrow> DTCInfo" where
  \<comment> \<open>\<^verbatim>\<open>DTCInfo(DTC=..., status=...)\<close> for a code that is a \<^verbatim>\<open>str\<close>\<close>
  "DTCInfo_init code st = \<lparr>DTC = py_lower code, status = st\<rparr>"

definition and_then :: "exn + 'a \<Rightarrow> ('a \<Rightarrow> exn + 'b) \<Rightarrow> exn + 'b" where
  \<comment> \<open>sequencing: an exception of the first computation leaves the function\<close>
  "and_then m f = (case m of Inl e \<Rightarrow> Inl e | Inr x \<Rightarrow> f x)"

definition dtc_matches_code :: "DTCInfo \<Rightarrow> DTCInfo \<Rightarrow> bool" where
  \<comment> \<open>every exception is caught (and printed) and gives \<^verbatim>\<open>False\<close>\<close>
  "dtc_matches_code dtc rule =
     (case to_int (PStr (DTC dtc)) of
        Inl e \<Rightarrow> False
      | Inr dtc_code \<Rightarrow>
          (case to_int (PStr (DTC rule)) of
             Inl e \<Rightarrow> False
           | Inr rule_code \<Rightarrow> dtc_code \<noteq> None \<and> rule_code \<noteq> None \<and> dtc_code = rule_code))"

definition has_star :: "pyval \<Rightarrow> bool" where
  \<comment> \<open>\<^verbatim>\<open>isinstance(rule_status, str) and "*" in rule_status\<close>\<close>
  "has_star v = (case v of PStr s \<Rightarrow> CHR ''*'' \<in> set s | _ \<Rightarrow> False)"

definition py_int_base16 :: "pyval \<Rightarrow> exn + int" where
  \<comment> \<open>\<^verbatim>\<open>int(value, 16)\<close>\<close>
  "py_int_base16 v =
     (case v of
        PStr s \<Rightarrow> py_int 16 s
      | _ \<Rightarrow> Inl (TypeError ''int() can't convert non-string with explicit base''))"

definition bin_tail :: "int \<Rightarrow> string" where
  \<comment> \<open>\<^verbatim>\<open>bin(n)[2:]\<close>: for a negative \<open>n\<close> the slice cuts \<^verbatim>\<open>-0\<close> and leaves the \<^verbatim>\<open>b\<close>\<close>
  "bin_tail n =
     (if n < 0 then CHR ''b'' # nat_digits 2 False (nat (- n)) else nat_digits 2 False (nat n))"

definition pattern_matches :: "string \<Rightarrow> string \<Rightarrow> bool" where
  \<comment> \<open>the loop over \<^verbatim>\<open>zip(dut_bin, rule_pattern)\<close> after both were filled to \<^verbatim>\<open>maxlen\<close>\<close>
  "pattern_matches dut_bin rule_pattern =
     (let maxlen = max (length rule_pattern) (length dut_bin)
      in \<not> list_ex (\<lambda>(db, rp). rp \<noteq> CHR ''*'' \<and> db \<noteq> rp)
             (zip (zfill dut_bin maxlen) (zfill rule_pattern maxlen)))"

definition status_matches :: "pyval \<Rightarrow> pyval \<Rightarrow> exn + bool" where
  "status_matches dut_status rule_status =
     (if rule_status = PStr STATUS_ANY then Inr True
      else if has_star rule_status then
        (case py_int_base16 dut_status of
           Inl e \<Rightarrow> Inr False
         | Inr n \<Rightarrow>
             (case rule_status of
                PStr rule_pattern \<Rightarrow> Inr (pattern_matches (bin_tail n) rule_pattern)
              | _ \<Rightarrow> Inr False))
      else
        (case to_int dut_status of
           Inl e \<Rightarrow> if is_ValueError e then Inr False else Inl e
         | Inr dut_status_int \<Rightarrow>
             (case to_int rule_status of
                Inl e \<Rightarrow> if is_ValueError e then Inr False else Inl e
              | Inr rule_status_int \<Rightarrow>
                  if dut_status_int = None \<or> rule_status_int = None then Inr False
                  else Inr (dut_status_int = rule_status_int))))"

record table =
  name :: string
  column_header :: "string list"
  data :: "string list list"
  expanded :: bool

fun scan_rule_sets :: "DTCInfo \<Rightarrow> (string \<times> DTCInfo list) list \<Rightarrow> (string \<times> DTCInfo) option" where
  \<comment> \<open>the two nested loops with their \<^verbatim>\<open>break\<close>s: the first matching rule of the
      first category that has one\<close>
  "scan_rule_sets dut [] = None"
| "scan_rule_sets dut ((type_name, rules) # rule_sets) =
     (case find (dtc_matches_code dut) rules of
        Some rule \<Rightarrow> Some (type_name, rule)
      | None \<Rightarrow> scan_rule_sets dut rule_sets)"

definition suppressed_or_pass :: "string \<Rightarrow> string" where
  \<comment> \<open>\<^verbatim>\<open>"none" if type_name in [STATUS_ALLOWED, STATUS_MUTED] else "pass"\<close>\<close>
  "suppressed_or_pass type_name =
     (if type_name = STATUS_ALLOWED \<or> type_name = STATUS_MUTED then ''none'' else ''pass'')"

definition rule_result :: "string \<Rightarrow> DTCInfo \<Rightarrow> DTCInfo \<Rightarrow> exn + string" where
  \<comment> \<open>the result column of a matched rule; \<open>type_name\<close> is one of the three category
      names, so the \<^verbatim>\<open>elif\<close> of the \<^verbatim>\<open>any\<close> branch is its \<^verbatim>\<open>else\<close>\<close>
  "rule_result type_name dut rule =
     (if has_star (status rule) then
        and_then (status_matches (status dut) (status rule))
          (\<lambda>m. Inr (if m then suppressed_or_pass type_name else ''fail''))
      else if status rule = PStr STATUS_ANY then
        Inr (if type_name = STATUS_EXPECTED then ''pass'' else ''none'')
      else
        and_then (status_matches (status dut) (status rule))
          (\<lambda>m. Inr (if m then suppressed_or_pass type_name else ''fail'')))"

definition mark_found :: "DTCInfo \<Rightarrow> DTCInfo list \<Rightarrow> bool list \<Rightarrow> bool list" where
  \<comment> \<open>\<^verbatim>\<open>expected_found[eidx] = True\<close> for every expected rule with the code of \<open>dut\<close>\<close>
  "mark_found dut expected_dtcs expected_found =
     map (\<lambda>(ex, f). f \<or> dtc_matches_code dut ex) (zip expected_dtcs expected_found)"

definition eval_dut ::
  "DTCInfo list \<Rightarrow> DTCInfo list \<Rightarrow> DTCInfo list \<Rightarrow> string list list \<times> bool list \<Rightarrow> DTCInfo
     \<Rightarrow> exn + string list list \<times> bool list" where
  \<comment> \<open>one round of the loop over \<^verbatim>\<open>dut_dtcs\<close>\<close>
  "eval_dut allowed_dtcs muted_dtcs expected_dtcs st dut =
     (case st of (table_data, expected_found) \<Rightarrow>
      and_then (format_dtc_code (PStr (DTC dut))) (\<lambda>dtc_code.
      and_then (parse_to_int_or_hex (status dut)) (\<lambda>dtc_status.
        case scan_rule_sets dut
               [(STATUS_ALLOWED, allowed_dtcs), (STATUS_MUTED, muted_dtcs),
                (STATUS_EXPECTED, expected_dtcs)] of
          Some (type_name, rule) \<Rightarrow>
            and_then (format_dtc_code (PStr (DTC rule))) (\<lambda>rc.
            and_then (parse_to_int_or_hex (status rule)) (\<lambda>rs.
            and_then (rule_result type_name dut rule) (\<lambda>result.
              Inr (table_data @
                     [[dtc_code, dtc_status, ''Present'', type_name, rc @ ''+'' @ rs, result]],
                   if type_name = STATUS_EXPECTED
                   then mark_found dut expected_dtcs expected_found
                   else expected_found))))
        | None \<Rightarrow>
            Inr (table_data @ [[dtc_code, dtc_status, ''Present'', ''Unexpected'', '''', ''fail'']],
                 expected_found))))"

fun eval_duts ::
  "DTCInfo list \<Rightarrow> DTCInfo list \<Rightarrow> DTCInfo list \<Rightarrow> string list list \<times> bool list
     \<Rightarrow> DTCInfo list \<Rightarrow> exn + string list list \<times> bool list" where
  "eval_duts a m e st [] = Inr st"
| "eval_duts a m e st (dut # dut_dtcs) =
     and_then (eval_dut a m e st dut) (\<lambda>st'. eval_duts a m e st' dut_dtcs)"

definition missing_row :: "DTCInfo \<Rightarrow> exn + string list" where
  "missing_row ex =
     and_then (format_dtc_code (PStr (DTC ex))) (\<lambda>c.
     and_then (parse_to_int_or_hex (status ex)) (\<lambda>s.
     and_then (format_dtc_code (PStr (DTC ex))) (\<lambda>c'.
     and_then (parse_to_int_or_hex (status ex)) (\<lambda>s'.
       Inr [c, s, ''Not Present'', STATUS_EXPECTED, c' @ ''+'' @ s', ''fail'']))))"

fun missing_rows :: "(DTCInfo \<times> bool) list \<Rightarrow> exn + string list list" where
  \<comment> \<open>the loop over \<^verbatim>\<open>enumerate(expected_dtcs)\<close> with the flags of \<^verbatim>\<open>expected_found\<close>\<close>
  "missing_rows [] = Inr []"
| "missing_rows ((ex, found) # rest) =
     (if \<not> found then
        and_then (missing_row ex) (\<lambda>row.
        and_then (missing_rows rest) (\<lambda>rows. Inr (row # rows)))
      else missing_rows rest)"

definition comprehensive_header :: "string list" where
  "comprehensive_header =
     [''DTC'', ''Status'', ''Present/Not present'', ''Type'', ''DTC+Status'', ''Result'']"

definition build_comprehensive_dtc_results_table ::
  "DTCInfo list \<Rightarrow> DTCInfo list \<Rightarrow> DTCInfo list \<Rightarrow> DTCInfo list \<Rightarrow> exn + table" where
  "build_comprehensive_dtc_results_table dut_dtcs allowed_dtcs muted_dtcs expected_dtcs =
     and_then (eval_duts allowed_dtcs muted_dtcs expected_dtcs
                 ([], replicate (length expected_dtcs) False) dut_dtcs)
       (\<lambda>(table_data, expected_found).
     and_then (missing_rows (zip expected_dtcs expected_found)) (\<lambda>rows.
       Inr \<lparr>name = ''DTC Comprehensive Evaluation'', column_header = comprehensive_header,
            data = table_data @ rows, expanded = True\<rparr>))"

text \<open>
  The wildcard comparison as the specification words it: position \<open>j\<close>, counted from the
  least significant end, of a pattern that is zero-padded on the left.
\<close>

definition pattern_at :: "string \<Rightarrow> nat \<Rightarrow> char" where
  "pattern_at p j = (if j < length p then rev p ! j else CHR ''0'')"

text \<open>
  C10. For a string that is \<^verbatim>\<open>any\<close> after trimming and lower-casing,
  \<^verbatim>\<open>format_dtc_code\<close> returns the literal \<^verbatim>\<open>any\<close>, which does not
  begin with \<^verbatim>\<open>0x\<close>.
\<close>

theorem format_dtc_code_any:
  "py_lower (py_strip s) = ''any'' \<Longrightarrow>
     format_dtc_code (PStr s) = Inr ''any'' \<and> \<not> startswith ''any'' ''0x''"
  by (simp add: format_dtc_code_def STATUS_ANY_def startswith_def)

theorem format_dtc_code_any_witness:
  "py_lower (py_strip ''  AnY '') = ''any'' \<and>
   format_dtc_code (PStr ''  AnY '') = Inr ''any'' \<and> \<not> startswith ''any'' ''0x''"
proof -
  have h: "py_lower (py_strip ''  AnY '') = ''any''"
    by code_simp
  show ?thesis using h format_dtc_code_any [OF h] by simp
qed

section \<open>Properties of the value codec\<close>

subsection \<open>Hexadecimal digits\<close>


lemma lt16_cases:
  "d < (16::nat) \<Longrightarrow> d \<in> {0,1,2,3,4,5,6,7,8,9,10,11,12,13,14,15}"
  by simp arith

lemma digit_char_lower_hex: "d < 16 \<Longrightarrow> is_hexdigit_lower (digit_char False d)"
  by (drule lt16_cases) (auto simp: digit_char_def is_hexdigit_lower_def)

lemma digit_val_digit_char: "d < 16 \<Longrightarrow> digit_val (digit_char False d) = d"
  by (drule lt16_cases) (auto simp: digit_char_def digit_val_def)

lemma hexdigit_props:
  assumes "is_hexdigit_lower c"
  shows "digit_val c < 16" and "c \<noteq> CHR ''_''" and "\<not> py_isspace c" and "\<not> int_space c"
    and "py_lower_char c = c" and "c \<noteq> CHR ''x''" and "c \<noteq> CHR ''X''" and "c \<noteq> CHR ''+''"
    and "c \<noteq> CHR ''-''" and "c \<noteq> CHR ''*''"
  using assms
  by (auto simp: is_hexdigit_lower_def digit_val_def py_isspace_def int_space_def py_lower_char_def)

lemma nat_digits_hex: "list_all is_hexdigit_lower (nat_digits 16 False n)"
proof (induction "16::nat" False n rule: nat_digits.induct)
  case (1 n)
  show ?case
  proof (cases "n < 16")
    case True
    then show ?thesis by (simp add: nat_digits.simps [of 16 False n] digit_char_lower_hex)
  next
    case False
    with 1 show ?thesis
      by (simp add: nat_digits.simps [of 16 False n] digit_char_lower_hex)
  qed
qed

lemma nat_digits_nonempty: "nat_digits b u n \<noteq> []"
  by (subst nat_digits.simps) simp

lemma digits_value_snoc: "digits_value b (ds @ [d]) = digits_value b ds * b + d"
  by (simp add: digits_value_def)

lemma digits_value_nat_digits:
  "digits_value 16 (map digit_val (nat_digits 16 False n)) = n"
proof (induction "16::nat" False n rule: nat_digits.induct)
  case (1 n)
  show ?case
  proof (cases "n < 16")
    case True
    then show ?thesis
      by (simp add: nat_digits.simps [of 16 False n] digit_val_digit_char digits_value_def)
  next
    case False
    with 1 have "digits_value 16 (map digit_val (nat_digits 16 False (n div 16))) = n div 16"
      by simp
    with False show ?thesis
      by (simp add: nat_digits.simps [of 16 False n] digits_value_snoc digit_val_digit_char)
  qed
qed

lemma foldl_zeros: "foldl (\<lambda>a d. a * b + d) 0 (replicate k (0::nat)) = 0"
  by (induction k) simp_all

lemma digits_value_zeros:
  "digits_value b (map digit_val (replicate k CHR ''0'' @ s)) = digits_value b (map digit_val s)"
proof -
  have "digit_val CHR ''0'' = 0" by (simp add: digit_val_def)
  then show ?thesis
    by (simp add: digits_value_def foldl_zeros)
qed

lemma scan_digits_hex:
  "list_all is_hexdigit_lower s \<Longrightarrow> s \<noteq> [] \<or> prev \<noteq> CHR ''_'' \<Longrightarrow>
     scan_digits 16 prev s = Some (map digit_val s, [])"
proof (induction s arbitrary: prev)
  case Nil
  then show ?case by simp
next
  case (Cons c cs)
  then have c: "is_hexdigit_lower c" and cs: "list_all is_hexdigit_lower cs" by simp_all
  have "scan_digits 16 c cs = Some (map digit_val cs, [])"
    using Cons.IH [OF cs, of c] hexdigit_props(2) [OF c] by simp
  then show ?case
    using hexdigit_props(1,2) [OF c] by simp
qed


lemma py_strip_id: "s \<noteq> [] \<Longrightarrow> \<not> py_isspace (hd s) \<Longrightarrow> \<not> py_isspace (last s) \<Longrightarrow> py_strip s = s"
proof -
  assume a: "s \<noteq> []" "\<not> py_isspace (hd s)" "\<not> py_isspace (last s)"
  have 1: "dropWhile py_isspace s = s"
    using a by (simp add: dropWhile_eq_self_iff)
  have 2: "dropWhile py_isspace (rev s) = rev s"
    using a by (simp add: dropWhile_eq_self_iff hd_rev)
  show ?thesis by (simp add: py_strip_def 1 2)
qed

lemma py_lower_id: "list_all (\<lambda>c. py_lower_char c = c) s \<Longrightarrow> py_lower s = s"
  by (simp add: py_lower_def list_all_iff map_idI)

lemma py_int_hex_digits:
  assumes ds: "list_all is_hexdigit_lower ds" and ne: "ds \<noteq> []"
  shows "py_int 16 ds = Inr (int (digits_value 16 (map digit_val ds)))"
    and "py_int 16 (CHR ''-'' # ds) = Inr (- int (digits_value 16 (map digit_val ds)))"
proof -
  obtain c cs where s: "ds = c # cs" using ne by (cases ds) auto
  with ds have c: "is_hexdigit_lower c" by simp
  have pre: "strip_prefix 16 ds = ds"
  proof (cases cs)
    case Nil
    with s show ?thesis by (simp add: strip_prefix_def)
  next
    case (Cons c1 cs')
    with ds s have "is_hexdigit_lower c1" by simp
    from hexdigit_props(6,7) [OF this] s Cons show ?thesis
      by (simp add: strip_prefix_def)
  qed
  have scan: "scan_digits 16 (CHR 0x00) ds = Some (map digit_val ds, [])"
    using scan_digits_hex [OF ds] ne by simp
  have nu: "\<not> startswith ds ''_''"
    using hexdigit_props(2) [OF c] s by (simp add: startswith_def)
  show "py_int 16 ds = Inr (int (digits_value 16 (map digit_val ds)))"
    using hexdigit_props(4,8,9) [OF c] s pre scan nu ne
    by (simp add: py_int_def strip_sign_def)
  have "\<not> int_space CHR ''-''" by (simp add: int_space_def)
  then show "py_int 16 (CHR ''-'' # ds) = Inr (- int (digits_value 16 (map digit_val ds)))"
    using pre scan nu ne
    by (simp add: py_int_def strip_sign_def)
qed

lemma format_int_hex_shape:
  "\<exists>ds. list_all is_hexdigit_lower ds \<and> ds \<noteq> [] \<and> digits_value 16 (map digit_val ds) = nat \<bar>n\<bar> \<and>
        format_int 16 False w n = (if n < 0 then CHR ''-'' # ds else ds)"
proof -
  let ?k = "w - length (if n < 0 then ''-'' else []) - length (nat_digits 16 False (nat \<bar>n\<bar>))"
  let ?ds = "replicate ?k CHR ''0'' @ nat_digits 16 False (nat \<bar>n\<bar>)"
  have z: "is_hexdigit_lower CHR ''0''" by (simp add: is_hexdigit_lower_def)
  have "list_all is_hexdigit_lower ?ds"
    using nat_digits_hex [of "nat \<bar>n\<bar>"] z by (auto simp: list_all_iff)
  moreover have "?ds \<noteq> []" using nat_digits_nonempty by simp
  moreover have "digits_value 16 (map digit_val ?ds) = nat \<bar>n\<bar>"
    by (simp only: digits_value_zeros digits_value_nat_digits)
  moreover have "format_int 16 False w n = (if n < 0 then CHR ''-'' # ?ds else ?ds)"
    by (simp add: format_int_def Let_def)
  ultimately show ?thesis by blast
qed

lemma py_int_format_int: "py_int 16 (format_int 16 False w n) = Inr n"
proof -
  obtain ds where ds: "list_all is_hexdigit_lower ds" "ds \<noteq> []"
      "digits_value 16 (map digit_val ds) = nat \<bar>n\<bar>"
      "format_int 16 False w n = (if n < 0 then CHR ''-'' # ds else ds)"
    using format_int_hex_shape by blast
  show ?thesis
    using py_int_hex_digits [OF ds(1,2)] ds(3,4) by (cases "n < 0") simp_all
qed

lemma to_int_0x_format_int: "to_int (PStr (''0x'' @ format_int 16 False w n)) = Inr (Some n)"
proof -
  obtain ds where ds: "list_all is_hexdigit_lower ds" "ds \<noteq> []"
      "format_int 16 False w n = (if n < 0 then CHR ''-'' # ds else ds)"
    using format_int_hex_shape by blast
  let ?f = "format_int 16 False w n"
  let ?s = "''0x'' @ ?f"
  have chars: "list_all (\<lambda>c. is_hexdigit_lower c \<or> c = CHR ''-'') ?f"
    using ds by (auto simp: list_all_iff)
  have fne: "?f \<noteq> []" using ds by simp
  have last: "is_hexdigit_lower (last ?f)"
    using ds by (auto simp: list_all_iff)
  have "\<not> py_isspace CHR ''0''" by (simp add: py_isspace_def)
  then have strip: "py_strip ?s = ?s"
    using hexdigit_props(3) [OF last] fne by (intro py_strip_id) simp_all
  have low: "py_lower ?s = ?s"
  proof (rule py_lower_id)
    have "py_lower_char CHR ''0'' = CHR ''0''" "py_lower_char CHR ''x'' = CHR ''x''"
         "py_lower_char CHR ''-'' = CHR ''-''"
      by (simp_all add: py_lower_char_def)
    then show "list_all (\<lambda>c. py_lower_char c = c) ?s"
      using chars hexdigit_props(5) by (auto simp: list_all_iff)
  qed
  have nany: "?s \<noteq> STATUS_ANY" by (simp add: STATUS_ANY_def)
  have nbit: "\<not> is_bit_pattern ?s" by (simp add: is_bit_pattern_def)
  have sw: "startswith ?s ''0x''" by (simp add: startswith_def)
  have nu: "remove_underscores ?f = ?f"
    unfolding remove_underscores_def
    using chars hexdigit_props(2) by (intro filter_True) (auto simp: list_all_iff)
  show ?thesis
    using strip low nany nbit sw nu py_int_format_int [of w n]
    by (simp add: to_int_def)
qed

text \<open>
  C8. Round trip of the value codec: for every integer \<open>n\<close>, \<^verbatim>\<open>format_dtc_code(n)\<close>
  returns a string, and \<^verbatim>\<open>_to_int\<close> decodes that string to \<open>n\<close> again. This
  includes the negative integers, which are formatted as \<^verbatim>\<open>0x-0001\<close>.
\<close>

theorem format_dtc_code_roundtrip:
  "\<exists>s. format_dtc_code (PInt n) = Inr s \<and> to_int (PStr s) = Inr (Some n)"
  using to_int_0x_format_int [of 5 n]
    to_int_0x_format_int [of "length (format_int 16 False 0 n)" n]
  by (simp add: format_dtc_code_def py_int_val_def)

theorem format_dtc_code_roundtrip_witness:
  "\<exists>s. format_dtc_code (PInt (-257)) = Inr s \<and> to_int (PStr s) = Inr (Some (-257))"
  by (rule format_dtc_code_roundtrip)

end
